theory Spec2Isabelle
  imports Complex_Main
begin

section \<open>Values shared by the modules\<close>

text \<open>
  A JavaScript string is modelled as a HOL \<open>string\<close>; a value of type
  \<open>string | undefined\<close> as a \<open>string option\<close> with \<open>None\<close> for \<open>undefined\<close>.
  \<open>process.env\<close> (after \<open>dotenv.config()\<close> has filled it) is a map from keys to strings.
  Console output is not modelled.
\<close>

type_synonym process_env = "string \<Rightarrow> string option"

text \<open>
  JSON bodies as sent by \<open>res.json\<close>. An object is an association list, so that the
  order and the exact set of keys of a body can be stated.
\<close>

datatype json =
    JNull
  | JBool bool
  | JNum real
  | JStr string
  | JArr "json list"
  | JObj "(string \<times> json) list"

fun json_field :: "json \<Rightarrow> string \<Rightarrow> json option" where
  "json_field (JObj kvs) k = map_of kvs k"
| "json_field _ k = None"

text \<open>
  Modelled from the spec: the class \<open>ErrorResponse\<close> of \<open>middlewares/responseHandler.ts\<close>
  is not among the sources. The spec (4.2) gives it a message, a caller-supplied status code and
  optional structured detail.
\<close>

record ErrorResponse =
  message :: string
  statusCode :: int
  data :: "json option"

text \<open>
  What a \<open>throw\<close> can carry: an instance of the application's \<open>ErrorResponse\<close>, or
  anything else (represented by a plain \<open>Error\<close> with its message). The test
  \<open>error instanceof ErrorResponse\<close> is the case distinction on this type.
\<close>

datatype exn =
    Error string
  | ErrorResponseE ErrorResponse

text \<open>Truthiness of a \<open>string | undefined\<close>: \<open>undefined\<close> and \<open>""\<close> are falsy.\<close>

fun truthy :: "string option \<Rightarrow> bool" where
  "truthy None = False"
| "truthy (Some v) = (v \<noteq> [])"

text \<open>\<open>a || b\<close> on such values.\<close>

definition js_or :: "string option \<Rightarrow> string option \<Rightarrow> string option" where
  "js_or a b = (if truthy a then a else b)"

text \<open>\<open>a || 'literal'\<close>, whose result is a string.\<close>

definition js_or_str :: "string option \<Rightarrow> string \<Rightarrow> string" where
  "js_or_str a b = (case a of None \<Rightarrow> b | Some v \<Rightarrow> if v \<noteq> [] then v else b)"

section \<open>\<open>parseInt(s, 10)\<close>\<close>

text \<open>
  The white space that \<open>parseInt\<close> skips, among the characters a HOL \<open>char\<close> can
  hold (code units below 256): TAB, LF, VT, FF, CR, SP and NBSP.
\<close>

definition StrWhiteSpaceChar :: "char \<Rightarrow> bool" where
  "StrWhiteSpaceChar c = ((of_char c :: nat) \<in> {9, 10, 11, 12, 13, 32, 160})"

definition is_digit :: "char \<Rightarrow> bool" where
  "is_digit c = (48 \<le> (of_char c :: nat) \<and> (of_char c :: nat) \<le> 57)"

definition digit_value :: "char \<Rightarrow> nat" where
  "digit_value c = (of_char c :: nat) - 48"

fun digits_value :: "nat \<Rightarrow> string \<Rightarrow> nat" where
  "digits_value acc [] = acc"
| "digits_value acc (c # cs) = digits_value (acc * 10 + digit_value c) cs"

text \<open>
  \<open>parseInt(s, 10)\<close>: skip leading white space, read an optional sign, take the longest
  prefix of decimal digits; no digit gives \<open>NaN\<close> (here \<open>None\<close>). The result is the
  mathematical integer; JavaScript rounds it to a double, which changes no comparison with
  0 or 65535, and \<open>-0\<close> is 0.
\<close>

definition parseInt :: "string \<Rightarrow> int option" where
  "parseInt inputString =
     (let S = dropWhile StrWhiteSpaceChar inputString;
          sign = (if S \<noteq> [] \<and> hd S = CHR ''-'' then - 1 else (1 :: int));
          S' = (if S \<noteq> [] \<and> (hd S = CHR ''+'' \<or> hd S = CHR ''-'') then tl S else S);
          Z = takeWhile is_digit S'
      in if Z = [] then None else Some (sign * int (digits_value 0 Z)))"

section \<open>\<open>utils/envConfig.ts\<close>\<close>

definition required_msg :: "string \<Rightarrow> string" where
  "required_msg key = ''Environment variable '' @ key @ '' is required but not defined''"

text \<open>\<open>getEnvVariable(key, defaultValue?)\<close> of \<open>utils/envConfig.ts\<close>.\<close>

definition envConfig_getEnvVariable :: "process_env \<Rightarrow> string \<Rightarrow> string option \<Rightarrow> exn + string" where
  "envConfig_getEnvVariable env key defaultValue =
     (let value = js_or (env key) defaultValue
      in if \<not> truthy value then Inl (Error (required_msg key))
         else (case value of Some v \<Rightarrow> Inr v | None \<Rightarrow> Inl (Error (required_msg key))))"

definition getPort :: "process_env \<Rightarrow> exn + int" where
  "getPort env =
     (let port = js_or_str (env ''PORT'') ''5000'';
          invalid = Inl (Error (''Invalid PORT value: '' @ port @ ''. Must be a number between 0 and 65535''))
      in case parseInt port of
           None \<Rightarrow> invalid
         | Some parsedPort \<Rightarrow>
             if parsedPort < 0 \<or> parsedPort > 65535 then invalid else Inr parsedPort)"

text \<open>How a number in the port range prints inside a template literal.\<close>

fun string_of_nat :: "nat \<Rightarrow> string" where
  "string_of_nat n =
     (if n < 10 then [char_of (48 + n)]
      else string_of_nat (n div 10) @ [char_of (48 + n mod 10)])"

declare string_of_nat.simps [simp del]

definition number_to_string :: "int \<Rightarrow> string" where
  "number_to_string n = (if n < 0 then CHR ''-'' # string_of_nat (nat (- n)) else string_of_nat (nat n))"

text \<open>\<open>s.split(',')\<close>: the empty string splits into one empty piece.\<close>

fun split_on :: "char \<Rightarrow> string \<Rightarrow> string list" where
  "split_on sep [] = [[]]"
| "split_on sep (c # cs) =
     (if c = sep then [] # split_on sep cs
      else (case split_on sep cs of
              [] \<Rightarrow> [[c]]
            | w # ws \<Rightarrow> (c # w) # ws))"

text \<open>
  Evaluating a module runs its top-level statements in order; the first \<open>throw\<close> ends the
  evaluation. \<open>bindE\<close> is that sequencing.
\<close>

definition bindE :: "exn + 'a \<Rightarrow> ('a \<Rightarrow> exn + 'b) \<Rightarrow> exn + 'b" where
  "bindE m f = (case m of Inl e \<Rightarrow> Inl e | Inr x \<Rightarrow> f x)"

text \<open>The exports of \<open>utils/envConfig.ts\<close>, each field named after the constant it holds.\<close>

record envConfig_exports =
  envConfig_PORT :: int
  envConfig_NODE_ENV :: string
  envConfig_MONGO_URI :: string
  envConfig_ALLOWED_ORIGINS :: "string list"
  envConfig_RATE_LIMIT_WINDOW_MS :: "int option"
  envConfig_RATE_LIMIT_MAX_REQUESTS :: "int option"
  envConfig_SMTP_HOST :: string
  envConfig_SMTP_PORT :: string
  envConfig_SMTP_SECURE :: string
  envConfig_SMTP_USER :: string
  envConfig_SMTP_PASS :: string
  envConfig_SMTP_FROM :: "string option"
  envConfig_BETTER_AUTH_SECRET :: string
  envConfig_BETTER_AUTH_URL :: string
  envConfig_FRONTEND_URL :: string

definition load_envConfig :: "process_env \<Rightarrow> exn + envConfig_exports" where
  "load_envConfig env =
     bindE (getPort env) (\<lambda>PORT.
     bindE (envConfig_getEnvVariable env ''MONGO_URI'' None) (\<lambda>MONGO_URI.
     bindE (envConfig_getEnvVariable env ''BETTER_AUTH_SECRET'' None) (\<lambda>BETTER_AUTH_SECRET.
       Inr \<lparr> envConfig_PORT = PORT,
             envConfig_NODE_ENV = js_or_str (env ''NODE_ENV'') ''development'',
             envConfig_MONGO_URI = MONGO_URI,
             envConfig_ALLOWED_ORIGINS =
               (if truthy (env ''ALLOWED_ORIGINS'')
                then (case env ''ALLOWED_ORIGINS'' of Some v \<Rightarrow> split_on CHR '','' v | None \<Rightarrow> [])
                else [''http://localhost:3000'', ''http://localhost:3001'']),
             envConfig_RATE_LIMIT_WINDOW_MS = parseInt (js_or_str (env ''RATE_LIMIT_WINDOW_MS'') ''900000''),
             envConfig_RATE_LIMIT_MAX_REQUESTS = parseInt (js_or_str (env ''RATE_LIMIT_MAX_REQUESTS'') ''400''),
             envConfig_SMTP_HOST = js_or_str (env ''SMTP_HOST'') ''smtp.gmail.com'',
             envConfig_SMTP_PORT = js_or_str (env ''SMTP_PORT'') ''587'',
             envConfig_SMTP_SECURE = js_or_str (env ''SMTP_SECURE'') ''false'',
             envConfig_SMTP_USER = js_or_str (env ''SMTP_USER'') [],
             envConfig_SMTP_PASS = js_or_str (env ''SMTP_PASS'') [],
             envConfig_SMTP_FROM = js_or (env ''SMTP_FROM'') (env ''SMTP_USER''),
             envConfig_BETTER_AUTH_SECRET = BETTER_AUTH_SECRET,
             envConfig_BETTER_AUTH_URL =
               js_or_str (env ''BETTER_AUTH_URL'') (''http://localhost:'' @ number_to_string PORT),
             envConfig_FRONTEND_URL = js_or_str (env ''FRONTEND_URL'') ''http://localhost:3000'' \<rparr>)))"

section \<open>\<open>config/env.ts\<close>, the module \<open>index.ts\<close> imports\<close>

text \<open>
  \<open>getEnvVariable(key, defaultValue = "")\<close> of this module: a call without a default is a
  call with the default \<open>""\<close>, written \<open>[]\<close> below.
\<close>

definition env_getEnvVariable :: "process_env \<Rightarrow> string \<Rightarrow> string \<Rightarrow> exn + string" where
  "env_getEnvVariable env key defaultValue =
     (let value = js_or_str (env key) defaultValue
      in if value = [] then Inl (Error (required_msg key)) else Inr value)"

record env_exports =
  env_PORT :: string
  env_NODE_ENV :: string
  env_MONGO_URI :: string
  env_ALLOWED_ORIGINS :: "string list"
  env_RATE_LIMIT_WINDOW_MS :: "int option"
  env_RATE_LIMIT_MAX_REQUESTS :: "int option"
  env_SMTP_HOST :: string
  env_SMTP_PORT :: "int option"
  env_SMTP_SECURE :: bool
  env_SMTP_USER :: string
  env_SMTP_PASS :: string
  env_SMTP_FROM :: string
  env_BETTER_AUTH_SECRET :: string
  env_BETTER_AUTH_URL :: string
  env_FRONTEND_URL :: string
  env_GITHUB_CLIENT_ID :: string
  env_GITHUB_CLIENT_SECRET :: string
  env_GOOGLE_CLIENT_ID :: string
  env_GOOGLE_CLIENT_SECRET :: string

definition load_env :: "process_env \<Rightarrow> exn + env_exports" where
  "load_env env =
     bindE (env_getEnvVariable env ''PORT'' ''5000'') (\<lambda>PORT.
     bindE (env_getEnvVariable env ''NODE_ENV'' ''development'') (\<lambda>NODE_ENV.
     bindE (env_getEnvVariable env ''MONGO_URI'' ''mongodb://localhost:27017/your-database-name'') (\<lambda>MONGO_URI.
     bindE (env_getEnvVariable env ''ALLOWED_ORIGINS'' ''http://localhost:3000,http://localhost:3001'') (\<lambda>origins.
     bindE (env_getEnvVariable env ''RATE_LIMIT_WINDOW_MS'' ''900000'') (\<lambda>window_ms.
     bindE (env_getEnvVariable env ''RATE_LIMIT_MAX_REQUESTS'' ''400'') (\<lambda>max_requests.
     bindE (env_getEnvVariable env ''SMTP_HOST'' ''smtp.gmail.com'') (\<lambda>SMTP_HOST.
     bindE (env_getEnvVariable env ''SMTP_PORT'' ''587'') (\<lambda>smtp_port.
     bindE (env_getEnvVariable env ''SMTP_SECURE'' ''false'') (\<lambda>smtp_secure.
     bindE (env_getEnvVariable env ''SMTP_USER'' []) (\<lambda>SMTP_USER.
     bindE (env_getEnvVariable env ''SMTP_PASS'' []) (\<lambda>SMTP_PASS.
     bindE (env_getEnvVariable env ''SMTP_FROM'' ''noreply@yourapp.com'') (\<lambda>SMTP_FROM.
     bindE (env_getEnvVariable env ''BETTER_AUTH_SECRET'' []) (\<lambda>BETTER_AUTH_SECRET.
     bindE (env_getEnvVariable env ''BETTER_AUTH_URL'' ''http://localhost:5000'') (\<lambda>BETTER_AUTH_URL.
     bindE (env_getEnvVariable env ''FRONTEND_URL'' ''http://localhost:3000'') (\<lambda>FRONTEND_URL.
     bindE (env_getEnvVariable env ''GITHUB_CLIENT_ID'' []) (\<lambda>GITHUB_CLIENT_ID.
     bindE (env_getEnvVariable env ''GITHUB_CLIENT_SECRET'' []) (\<lambda>GITHUB_CLIENT_SECRET.
     bindE (env_getEnvVariable env ''GOOGLE_CLIENT_ID'' []) (\<lambda>GOOGLE_CLIENT_ID.
     bindE (env_getEnvVariable env ''GOOGLE_CLIENT_SECRET'' []) (\<lambda>GOOGLE_CLIENT_SECRET.
       Inr \<lparr> env_PORT = PORT,
             env_NODE_ENV = NODE_ENV,
             env_MONGO_URI = MONGO_URI,
             env_ALLOWED_ORIGINS = split_on CHR '','' origins,
             env_RATE_LIMIT_WINDOW_MS = parseInt window_ms,
             env_RATE_LIMIT_MAX_REQUESTS = parseInt max_requests,
             env_SMTP_HOST = SMTP_HOST,
             env_SMTP_PORT = parseInt smtp_port,
             env_SMTP_SECURE = (smtp_secure = ''true''),
             env_SMTP_USER = SMTP_USER,
             env_SMTP_PASS = SMTP_PASS,
             env_SMTP_FROM = SMTP_FROM,
             env_BETTER_AUTH_SECRET = BETTER_AUTH_SECRET,
             env_BETTER_AUTH_URL = BETTER_AUTH_URL,
             env_FRONTEND_URL = FRONTEND_URL,
             env_GITHUB_CLIENT_ID = GITHUB_CLIENT_ID,
             env_GITHUB_CLIENT_SECRET = GITHUB_CLIENT_SECRET,
             env_GOOGLE_CLIENT_ID = GOOGLE_CLIENT_ID,
             env_GOOGLE_CLIENT_SECRET = GOOGLE_CLIENT_SECRET \<rparr>)))))))))))))))))))"

section \<open>\<open>index.ts\<close>: the entry point\<close>

text \<open>
  What is observed of the process: the port the HTTP server listens on (if any), whether the
  shutdown handlers are installed, the URLs handed to \<open>mongoose.connect\<close> so far, and the
  exit code once the process has terminated.
\<close>

record process =
  listening :: "string option"
  shutdown_hooks :: bool
  connect_calls :: "string list"
  exit_code :: "int option"

definition fresh_process :: process where
  "fresh_process = \<lparr> listening = None, shutdown_hooks = False, connect_calls = [], exit_code = None \<rparr>"

text \<open>\<open>process.exit(code)\<close>.\<close>

definition process_exit :: "int \<Rightarrow> process \<Rightarrow> process" where
  "process_exit code p = p\<lparr>exit_code := Some code\<rparr>"






section \<open>The database connector\<close>

text \<open>
  \<open>mongoose.connect\<close> belongs to the driver. Whether a call succeeds is a parameter that
  may depend on the calls made before it and on the URL; the call itself is recorded in
  \<open>connect_calls\<close>.
\<close>

type_synonym driver = "string list \<Rightarrow> string \<Rightarrow> exn + unit"

definition mongoose_connect :: "driver \<Rightarrow> string \<Rightarrow> process \<Rightarrow> (exn + unit) \<times> process" where
  "mongoose_connect drv dbUrl p = (drv (connect_calls p) dbUrl, p\<lparr>connect_calls := connect_calls p @ [dbUrl]\<rparr>)"

text \<open>\<open>connectDb\<close>: one \<open>await mongoose.connect(dbUrl)\<close> inside \<open>try\<close>, \<open>process.exit(1)\<close> in \<open>catch\<close>.\<close>

definition connectDb :: "driver \<Rightarrow> string \<Rightarrow> process \<Rightarrow> process" where
  "connectDb drv dbUrl p =
     (case mongoose_connect drv dbUrl p of
        (Inr _, p') \<Rightarrow> p'
      | (Inl error, p') \<Rightarrow> process_exit 1 p')"

section \<open>\<open>routes/health.routes.ts\<close>\<close>

text \<open>
  What a handler can read besides the request: \<open>process.uptime()\<close>, \<open>Date.now()\<close>,
  \<open>process.env\<close>, and the result of evaluating \<open>mongoose.connection.readyState\<close>, which
  is a number or, for the \<open>catch\<close> branches of the handlers, an exception.
\<close>

record ambient =
  process_uptime :: real
  date_now :: int
  process_environment :: process_env
  readyState :: "exn + int"

record identity =
  identity_id :: string
  identity_email :: string
  identity_name :: string

text \<open>The request: its headers, and the \<open>user\<close> property the auth middleware attaches.\<close>

record request =
  headers :: "(string \<times> string) list"
  req_user :: "identity option"

text \<open>\<open>res.status(status).json(body)\<close>.\<close>

record response =
  status :: int
  body :: json

definition health_json :: "real \<Rightarrow> string \<Rightarrow> int \<Rightarrow> string \<Rightarrow> string \<Rightarrow> json" where
  "health_json uptime msg timestamp environment database =
     JObj [(''uptime'', JNum uptime),
           (''message'', JStr msg),
           (''timestamp'', JNum (of_int timestamp)),
           (''environment'', JStr environment),
           (''services'', JObj [(''database'', JStr database)])]"

text \<open>\<open>GET /health\<close>.\<close>

definition health_handler :: "ambient \<Rightarrow> request \<Rightarrow> response" where
  "health_handler a req =
     (let uptime = process_uptime a;
          timestamp = date_now a;
          environment = js_or_str (process_environment a ''NODE_ENV'') ''development''
      in case readyState a of
           Inr rs \<Rightarrow>
             (let database = (if rs = 1 then ''connected'' else ''disconnected'');
                  statusCode = (if database = ''connected'' then 200 else 503)
              in \<lparr> status = statusCode,
                    body = health_json uptime ''OK'' timestamp environment database \<rparr>)
         | Inl error \<Rightarrow>
             \<lparr> status = 503,
               body = health_json uptime ''Error checking services'' timestamp environment ''unknown'' \<rparr>)"

text \<open>\<open>GET /health/live\<close>.\<close>

definition live_handler :: "ambient \<Rightarrow> request \<Rightarrow> response" where
  "live_handler a req = \<lparr> status = 200, body = JObj [(''status'', JStr ''alive'')] \<rparr>"

text \<open>\<open>GET /health/ready\<close>.\<close>

definition ready_handler :: "ambient \<Rightarrow> request \<Rightarrow> response" where
  "ready_handler a req =
     (case readyState a of
        Inr rs \<Rightarrow>
          (let dbReady = (rs = 1)
           in if dbReady then \<lparr> status = 200, body = JObj [(''status'', JStr ''ready'')] \<rparr>
              else \<lparr> status = 503,
                     body = JObj [(''status'', JStr ''not ready''),
                                  (''reason'', JStr ''database not connected'')] \<rparr>)
      | Inl error \<Rightarrow>
          \<lparr> status = 503,
            body = JObj [(''status'', JStr ''not ready''),
                         (''error'', JStr ''health check failed'')] \<rparr>)"

text \<open>
  The envelope property of the specification, as a test on a response: the body has a
  boolean field \<open>success\<close>, and it is true exactly when the status is below 400.
\<close>

definition envelope_ok :: "response \<Rightarrow> bool" where
  "envelope_ok r =
     (case json_field (body r) ''success'' of
        Some (JBool b) \<Rightarrow> (b = (status r < 400))
      | _ \<Rightarrow> False)"

section \<open>The auth middleware\<close>

text \<open>
  The session as \<open>auth.api.getSession\<close> returns it: \<open>null\<close> is \<open>None\<close>, and its \<open>user\<close>
  may be missing. The user carries more than the middleware copies (here the \<open>role\<close>
  declared in the auth configuration).
\<close>

record session_user =
  user_id :: string
  user_email :: string
  user_name :: string
  user_role :: string

record session =
  user :: "session_user option"

text \<open>What the middleware hands to Express: \<open>next()\<close> or \<open>next(error)\<close>.\<close>

datatype next_call = Next | NextError exn

definition unauthorized :: ErrorResponse where
  "unauthorized = \<lparr> message = ''Unauthorized access'', statusCode = 401, data = None \<rparr>"

text \<open>
  The \<open>try\<close> block of \<open>authenticateUser\<close>. \<open>getSession\<close> stands for
  \<open>auth.api.getSession\<close> applied to the request's headers: it returns a session, returns
  \<open>null\<close>, or throws.
\<close>

definition authenticateUser_try ::
    "((string \<times> string) list \<Rightarrow> exn + session option) \<Rightarrow> request \<Rightarrow> exn + request" where
  "authenticateUser_try getSession req =
     bindE (getSession (headers req)) (\<lambda>session.
       case session of
         None \<Rightarrow> Inl (ErrorResponseE unauthorized)
       | Some s \<Rightarrow>
           (case user s of
              None \<Rightarrow> Inl (ErrorResponseE unauthorized)
            | Some u \<Rightarrow>
                Inr (req\<lparr>req_user := Some \<lparr> identity_id = user_id u,
                                            identity_email = user_email u,
                                            identity_name = user_name u \<rparr>\<rparr>)))"

text \<open>\<open>authenticateUser\<close>: the request as it leaves the middleware, and the call of \<open>next\<close>.\<close>

definition authenticateUser ::
    "((string \<times> string) list \<Rightarrow> exn + session option) \<Rightarrow> request \<Rightarrow> request \<times> next_call" where
  "authenticateUser getSession req =
     (case authenticateUser_try getSession req of
        Inr req' \<Rightarrow> (req', Next)
      | Inl error \<Rightarrow>
          (case error of
             ErrorResponseE r \<Rightarrow> (req, NextError error)
           | _ \<Rightarrow> (req, NextError (ErrorResponseE unauthorized))))"

text \<open>The status code of the error response that a call of \<open>next\<close> leads to, if it is one.\<close>

fun next_status :: "next_call \<Rightarrow> int option" where
  "next_status Next = None"
| "next_status (NextError (ErrorResponseE r)) = Some (statusCode r)"
| "next_status (NextError (Error m)) = None"

section \<open>The auth configuration\<close>

text \<open>The \<open>emailAndPassword\<close> block of \<open>helpers/auth/auth.ts\<close> (its callback apart).\<close>

record emailAndPassword_options =
  enabled :: bool
  disableSignUp :: bool
  requireEmailVerification :: bool
  minPasswordLength :: nat
  maxPasswordLength :: nat
  autoSignIn :: bool

definition emailAndPassword :: emailAndPassword_options where
  "emailAndPassword =
     \<lparr> enabled = True, disableSignUp = False, requireEmailVerification = True,
       minPasswordLength = 8, maxPasswordLength = 128, autoSignIn = True \<rparr>"

record sign_up_body =
  email :: string
  name :: string
  password :: string

text \<open>
  The answer to a sign-up: rejected by the password policy, or whatever the rest of the
  engine answers.
\<close>

datatype 'r sign_up_result = Rejected | Handled 'r

text \<open>
  Modelled from the spec: the sign-up handler is the external auth engine's
  (\<open>auth.handler\<close>, to which \<open>routes/auth.routes.ts\<close> forwards every request); it is not
  among the sources. The spec has it enforce the declared password length bounds before any
  record is created: a password shorter than the minimum or longer than the maximum is
  rejected and the store stays as it is. What the engine does with a request whose password
  is within the bounds (a duplicate registration, the required additional fields, the
  creation of the record) is the parameter \<open>rest\<close>, which takes the store and the body and
  returns its answer and the new store.
\<close>

definition sign_up_email ::
    "emailAndPassword_options \<Rightarrow> ('s \<Rightarrow> sign_up_body \<Rightarrow> 'r \<times> 's) \<Rightarrow> 's \<Rightarrow> sign_up_body
       \<Rightarrow> 'r sign_up_result \<times> 's" where
  "sign_up_email opts rest store b =
     (if length (password b) < minPasswordLength opts \<or> maxPasswordLength opts < length (password b)
      then (Rejected, store)
      else (case rest store b of (r, store') \<Rightarrow> (Handled r, store')))"

section \<open>Properties\<close>

subsection \<open>The port\<close>

lemma parseInt_5000: "parseInt ''5000'' = Some 5000"
  by code_simp

lemma getPort_cases:
  "(\<exists>n. getPort env = Inr n \<and> 0 \<le> n \<and> n \<le> 65535) \<or> (\<exists>m. getPort env = Inl (Error m))"
  by (auto simp: getPort_def Let_def split: option.splits)

lemma getPort_parsed:
  "getPort env = Inr n \<Longrightarrow> parseInt (js_or_str (env ''PORT'') ''5000'') = Some n"
  by (auto simp: getPort_def Let_def split: option.splits if_splits)

lemma getPort_absent: "\<not> truthy (env ''PORT'') \<Longrightarrow> getPort env = Inr 5000"
  by (cases "env ''PORT''") (simp_all add: getPort_def js_or_str_def parseInt_5000)

text \<open>
  C10. For every value of \<open>PORT\<close>, \<open>getPort\<close> either returns an integer between 0 and
  65535 or throws an \<open>Error\<close>. What it returns is the number \<open>parseInt\<close> read (so it is
  never \<open>NaN\<close>), and when \<open>PORT\<close> is absent it returns 5000.
\<close>

theorem getPort_returns_port_or_throws:
  "((\<exists>n. getPort env = Inr n \<and> 0 \<le> n \<and> n \<le> 65535) \<or> (\<exists>m. getPort env = Inl (Error m)))
   \<and> (\<forall>n. getPort env = Inr n \<longrightarrow> parseInt (js_or_str (env ''PORT'') ''5000'') = Some n)
   \<and> (env ''PORT'' = None \<longrightarrow> getPort env = Inr 5000)"
  using getPort_cases [of env] getPort_parsed [of env] getPort_absent [of env] by simp

text \<open>The empty environment: \<open>PORT\<close> is absent and \<open>getPort\<close> returns 5000.\<close>

theorem getPort_returns_port_or_throws_witness:
  "(\<lambda>k. None :: string option) ''PORT'' = None \<and> getPort (\<lambda>k. None) = Inr 5000
   \<and> parseInt (js_or_str ((\<lambda>k. None :: string option) ''PORT'') ''5000'') = Some 5000"
  using getPort_returns_port_or_throws [of "\<lambda>k. None"] by simp

subsection \<open>Liveness\<close>

text \<open>
  C5. \<open>GET /health/live\<close> answers 200 with exactly the body \<open>{status: "alive"}\<close>, whatever
  the request, the environment and the state of the database connection.
\<close>

theorem live_handler_always_alive:
  "live_handler a req = \<lparr> status = 200, body = JObj [(''status'', JStr ''alive'')] \<rparr>
   \<and> live_handler a req = live_handler a' req'"
  by (simp add: live_handler_def)

subsection \<open>The auth middleware\<close>

lemma authenticateUser_null:
  "getSession (headers req) = Inr None \<Longrightarrow>
   authenticateUser getSession req = (req, NextError (ErrorResponseE unauthorized))"
  by (simp add: authenticateUser_def authenticateUser_try_def bindE_def)

lemma authenticateUser_no_user:
  "getSession (headers req) = Inr (Some s) \<Longrightarrow> user s = None \<Longrightarrow>
   authenticateUser getSession req = (req, NextError (ErrorResponseE unauthorized))"
  by (simp add: authenticateUser_def authenticateUser_try_def bindE_def)

lemma authenticateUser_other_exn:
  "getSession (headers req) = Inl (Error m) \<Longrightarrow>
   authenticateUser getSession req = (req, NextError (ErrorResponseE unauthorized))"
  by (simp add: authenticateUser_def authenticateUser_try_def bindE_def)

lemma authenticateUser_own_exn:
  "getSession (headers req) = Inl (ErrorResponseE r) \<Longrightarrow>
   authenticateUser getSession req = (req, NextError (ErrorResponseE r))"
  by (simp add: authenticateUser_def authenticateUser_try_def bindE_def)

text \<open>
  C2. When \<open>getSession\<close> returns a session whose \<open>user\<close> is missing, \<open>authenticateUser\<close>
  does what it does when \<open>getSession\<close> returns \<open>null\<close>: it calls \<open>next\<close> with the
  \<open>ErrorResponse\<close> "Unauthorized access" of status 401 (not 500) and leaves the request
  without an identity attached.
\<close>

theorem authenticateUser_session_without_user:
  assumes "getSession (headers req) = Inr (Some s)" and "user s = None"
    and "getSession' (headers req) = Inr None"
  shows "authenticateUser getSession req = authenticateUser getSession' req
       \<and> authenticateUser getSession req =
           (req, NextError (ErrorResponseE \<lparr> message = ''Unauthorized access'', statusCode = 401, data = None \<rparr>))
       \<and> next_status (snd (authenticateUser getSession req)) = Some 401
       \<and> req_user (fst (authenticateUser getSession req)) = req_user req"
proof -
  have a: "authenticateUser getSession req = (req, NextError (ErrorResponseE unauthorized))"
    using assms(1,2) by (rule authenticateUser_no_user)
  have b: "authenticateUser getSession' req = (req, NextError (ErrorResponseE unauthorized))"
    using assms(3) by (rule authenticateUser_null)
  show ?thesis
    by (simp add: a b) (simp add: unauthorized_def)
qed

text \<open>A request with a session cookie whose session has no user.\<close>

theorem authenticateUser_session_without_user_witness:
  "authenticateUser (\<lambda>h. Inr (Some \<lparr> user = None \<rparr>)) \<lparr> headers = [(''cookie'', ''s=1'')], req_user = None \<rparr>
     = authenticateUser (\<lambda>h. Inr None) \<lparr> headers = [(''cookie'', ''s=1'')], req_user = None \<rparr>
   \<and> authenticateUser (\<lambda>h. Inr (Some \<lparr> user = None \<rparr>)) \<lparr> headers = [(''cookie'', ''s=1'')], req_user = None \<rparr>
     = (\<lparr> headers = [(''cookie'', ''s=1'')], req_user = None \<rparr>,
        NextError (ErrorResponseE \<lparr> message = ''Unauthorized access'', statusCode = 401, data = None \<rparr>))
   \<and> next_status (snd (authenticateUser (\<lambda>h. Inr (Some \<lparr> user = None \<rparr>))
         \<lparr> headers = [(''cookie'', ''s=1'')], req_user = None \<rparr>)) = Some 401
   \<and> req_user (fst (authenticateUser (\<lambda>h. Inr (Some \<lparr> user = None \<rparr>))
         \<lparr> headers = [(''cookie'', ''s=1'')], req_user = None \<rparr>))
     = req_user \<lparr> headers = [(''cookie'', ''s=1'')], req_user = None \<rparr>"
  by (rule authenticateUser_session_without_user [where s = "\<lparr> user = None \<rparr>"]) simp_all

text \<open>
  C1. When \<open>getSession\<close> returns \<open>null\<close>, or throws something that is not an
  \<open>ErrorResponse\<close>, \<open>authenticateUser\<close> calls \<open>next\<close> with the fixed \<open>ErrorResponse\<close>
  "Unauthorized access" of status 401 and leaves the request as it was. When \<open>getSession\<close>
  throws an \<open>ErrorResponse\<close>, that same error is handed to \<open>next\<close>, with the status it carries.
\<close>

theorem authenticateUser_rejects:
  "(getSession (headers req) = Inr None \<longrightarrow>
      authenticateUser getSession req =
        (req, NextError (ErrorResponseE \<lparr> message = ''Unauthorized access'', statusCode = 401, data = None \<rparr>)))
   \<and> (\<forall>m. getSession (headers req) = Inl (Error m) \<longrightarrow>
      authenticateUser getSession req =
        (req, NextError (ErrorResponseE \<lparr> message = ''Unauthorized access'', statusCode = 401, data = None \<rparr>)))
   \<and> (\<forall>r. getSession (headers req) = Inl (ErrorResponseE r) \<longrightarrow>
      authenticateUser getSession req = (req, NextError (ErrorResponseE r)))"
  using authenticateUser_null [of getSession req] authenticateUser_other_exn [of getSession req]
    authenticateUser_own_exn [of getSession req]
  by (simp add: unauthorized_def)

text \<open>A driver error, a null session and a thrown 403 \<open>ErrorResponse\<close>.\<close>

theorem authenticateUser_rejects_witness:
  "authenticateUser (\<lambda>h. Inl (Error ''connection refused'')) \<lparr> headers = [], req_user = None \<rparr>
     = (\<lparr> headers = [], req_user = None \<rparr>,
        NextError (ErrorResponseE \<lparr> message = ''Unauthorized access'', statusCode = 401, data = None \<rparr>))
   \<and> authenticateUser (\<lambda>h. Inr None) \<lparr> headers = [], req_user = None \<rparr>
     = (\<lparr> headers = [], req_user = None \<rparr>,
        NextError (ErrorResponseE \<lparr> message = ''Unauthorized access'', statusCode = 401, data = None \<rparr>))
   \<and> authenticateUser (\<lambda>h. Inl (ErrorResponseE \<lparr> message = ''Forbidden'', statusCode = 403, data = None \<rparr>))
        \<lparr> headers = [], req_user = None \<rparr>
     = (\<lparr> headers = [], req_user = None \<rparr>,
        NextError (ErrorResponseE \<lparr> message = ''Forbidden'', statusCode = 403, data = None \<rparr>))"
  using authenticateUser_rejects [of "\<lambda>h. Inl (Error ''connection refused'')" "\<lparr> headers = [], req_user = None \<rparr>"]
    authenticateUser_rejects [of "\<lambda>h. Inr None" "\<lparr> headers = [], req_user = None \<rparr>"]
    authenticateUser_rejects [of "\<lambda>h. Inl (ErrorResponseE \<lparr> message = ''Forbidden'', statusCode = 403, data = None \<rparr>)"
       "\<lparr> headers = [], req_user = None \<rparr>"]
  by simp

subsection \<open>The health routes\<close>

lemma health_handler_status: "status (health_handler a req) = 200 \<or> status (health_handler a req) = 503"
  by (simp add: health_handler_def Let_def split: sum.splits)

lemma health_handler_no_success: "json_field (body (health_handler a req)) ''success'' = None"
  by (simp add: health_handler_def health_json_def Let_def split: sum.splits)

lemma ready_handler_status: "status (ready_handler a req) = 200 \<or> status (ready_handler a req) = 503"
  by (simp add: ready_handler_def Let_def split: sum.splits)

lemma ready_handler_no_success: "json_field (body (ready_handler a req)) ''success'' = None"
  by (simp add: ready_handler_def Let_def split: sum.splits)

lemma live_handler_no_success: "json_field (body (live_handler a req)) ''success'' = None"
  by (simp add: live_handler_def)

text \<open>
  C3 as stated fails: the body of \<open>GET /health/live\<close> has no \<open>success\<close> field at all, so
  it is not a boolean that agrees with the status.
\<close>

theorem live_handler_envelope_counterexample:
  "\<not> envelope_ok (live_handler
        \<lparr> process_uptime = 1, date_now = 0, process_environment = (\<lambda>k. None), readyState = Inr 1 \<rparr>
        \<lparr> headers = [], req_user = None \<rparr>)"
  by (simp add: envelope_ok_def live_handler_def)

text \<open>
  C3, amended. The bodies of \<open>GET /health\<close>, \<open>GET /health/live\<close> and \<open>GET /health/ready\<close>
  are plain objects without a \<open>success\<close> field; \<open>/health\<close> and \<open>/health/ready\<close> answer
  200 or 503, \<open>/health/live\<close> answers 200.
\<close>

theorem health_bodies_have_no_success_field:
  "json_field (body (health_handler a req)) ''success'' = None
   \<and> json_field (body (live_handler a req)) ''success'' = None
   \<and> json_field (body (ready_handler a req)) ''success'' = None
   \<and> (status (health_handler a req) = 200 \<or> status (health_handler a req) = 503)
   \<and> status (live_handler a req) = 200
   \<and> (status (ready_handler a req) = 200 \<or> status (ready_handler a req) = 503)"
  using health_handler_status [of a req] ready_handler_status [of a req]
  by (simp add: health_handler_no_success ready_handler_no_success live_handler_no_success)
     (simp add: live_handler_def)

text \<open>
  C4 as stated fails: when the check throws, \<open>GET /health/ready\<close> answers 503 with a body
  that has no \<open>reason\<close> field.
\<close>

theorem ready_handler_exception_counterexample:
  "status (ready_handler
      \<lparr> process_uptime = 1, date_now = 0, process_environment = (\<lambda>k. None),
        readyState = Inl (Error ''connection is gone'') \<rparr>
      \<lparr> headers = [], req_user = None \<rparr>) = 503
   \<and> json_field (body (ready_handler
      \<lparr> process_uptime = 1, date_now = 0, process_environment = (\<lambda>k. None),
        readyState = Inl (Error ''connection is gone'') \<rparr>
      \<lparr> headers = [], req_user = None \<rparr>)) ''reason'' = None"
  by (simp add: ready_handler_def)

text \<open>
  C4, amended. \<open>GET /health/ready\<close> answers 200 exactly when \<open>readyState\<close> is 1, and then
  with the body \<open>{status: "ready"}\<close>. For any other \<open>readyState\<close> it answers 503 with
  \<open>{status: "not ready", reason: "database not connected"}\<close>. When the check throws it answers
  503 with \<open>{status: "not ready", error: "health check failed"}\<close>: the text is under \<open>error\<close>.
\<close>

theorem ready_handler_cases:
  "((status (ready_handler a req) = 200) = (readyState a = Inr 1))
   \<and> (readyState a = Inr 1 \<longrightarrow>
        ready_handler a req = \<lparr> status = 200, body = JObj [(''status'', JStr ''ready'')] \<rparr>)
   \<and> (\<forall>rs. readyState a = Inr rs \<and> rs \<noteq> 1 \<longrightarrow>
        ready_handler a req =
          \<lparr> status = 503,
            body = JObj [(''status'', JStr ''not ready''), (''reason'', JStr ''database not connected'')] \<rparr>)
   \<and> (\<forall>e. readyState a = Inl e \<longrightarrow>
        ready_handler a req =
          \<lparr> status = 503,
            body = JObj [(''status'', JStr ''not ready''), (''error'', JStr ''health check failed'')] \<rparr>)"
  by (cases "readyState a") (auto simp add: ready_handler_def Let_def)

text \<open>A disconnected database, a connected one, and a check that throws.\<close>

theorem ready_handler_cases_witness:
  "ready_handler
      \<lparr> process_uptime = 1, date_now = 0, process_environment = (\<lambda>k. None), readyState = Inr 0 \<rparr>
      \<lparr> headers = [], req_user = None \<rparr>
     = \<lparr> status = 503,
         body = JObj [(''status'', JStr ''not ready''), (''reason'', JStr ''database not connected'')] \<rparr>
   \<and> ready_handler
      \<lparr> process_uptime = 1, date_now = 0, process_environment = (\<lambda>k. None), readyState = Inr 1 \<rparr>
      \<lparr> headers = [], req_user = None \<rparr>
     = \<lparr> status = 200, body = JObj [(''status'', JStr ''ready'')] \<rparr>
   \<and> ready_handler
      \<lparr> process_uptime = 1, date_now = 0, process_environment = (\<lambda>k. None),
        readyState = Inl (Error ''connection is gone'') \<rparr>
      \<lparr> headers = [], req_user = None \<rparr>
     = \<lparr> status = 503,
         body = JObj [(''status'', JStr ''not ready''), (''error'', JStr ''health check failed'')] \<rparr>"
  using ready_handler_cases
      [of "\<lparr> process_uptime = 1, date_now = 0, process_environment = (\<lambda>k. None), readyState = Inr 0 \<rparr>"
          "\<lparr> headers = [], req_user = None \<rparr>"]
    ready_handler_cases
      [of "\<lparr> process_uptime = 1, date_now = 0, process_environment = (\<lambda>k. None), readyState = Inr 1 \<rparr>"
          "\<lparr> headers = [], req_user = None \<rparr>"]
    ready_handler_cases
      [of "\<lparr> process_uptime = 1, date_now = 0, process_environment = (\<lambda>k. None),
             readyState = Inl (Error ''connection is gone'') \<rparr>"
          "\<lparr> headers = [], req_user = None \<rparr>"]
  by simp

subsection \<open>The database connector\<close>

text \<open>
  C6. \<open>connectDb\<close> calls \<open>mongoose.connect\<close> exactly once, whatever the outcome, and does
  not start listening. When that call fails, the process exits with code 1; when it succeeds,
  the process goes on.
\<close>

theorem connectDb_one_attempt_then_exit:
  "connect_calls (connectDb drv dbUrl p) = connect_calls p @ [dbUrl]
   \<and> listening (connectDb drv dbUrl p) = listening p
   \<and> (\<forall>e. drv (connect_calls p) dbUrl = Inl e \<longrightarrow> exit_code (connectDb drv dbUrl p) = Some 1)
   \<and> (drv (connect_calls p) dbUrl = Inr () \<longrightarrow> exit_code (connectDb drv dbUrl p) = exit_code p)"
  by (cases "drv (connect_calls p) dbUrl")
     (simp_all add: connectDb_def mongoose_connect_def process_exit_def)

text \<open>
  A driver that refuses the first call and would accept a second one: \<open>connectDb\<close> makes the
  one call and exits with code 1.
\<close>

theorem connectDb_one_attempt_then_exit_witness:
  "connect_calls (connectDb (\<lambda>calls url. if calls = [] then Inl (Error ''ECONNREFUSED'') else Inr ())
       ''mongodb://localhost:27017/app'' fresh_process) = [''mongodb://localhost:27017/app'']
   \<and> listening (connectDb (\<lambda>calls url. if calls = [] then Inl (Error ''ECONNREFUSED'') else Inr ())
       ''mongodb://localhost:27017/app'' fresh_process) = None
   \<and> exit_code (connectDb (\<lambda>calls url. if calls = [] then Inl (Error ''ECONNREFUSED'') else Inr ())
       ''mongodb://localhost:27017/app'' fresh_process) = Some 1"
  using connectDb_one_attempt_then_exit
      [of "\<lambda>calls url. if calls = [] then Inl (Error ''ECONNREFUSED'') else Inr ()"
          "''mongodb://localhost:27017/app''" fresh_process]
  by (simp add: fresh_process_def)

subsection \<open>The password policy\<close>

text \<open>
  C9. The configuration declares the password length bounds 8 and 128. The sign-up of
  \<open>{email: "a@b.com", name: "A", password: "x"}\<close> is rejected and the store is unchanged,
  whatever the rest of the engine would do; so is every sign-up whose password is shorter
  than 8 or longer than 128. Only a sign-up whose password is within the bounds reaches the
  rest of the engine.
\<close>

theorem password_policy_rejects_short_password:
  "minPasswordLength emailAndPassword = 8
   \<and> maxPasswordLength emailAndPassword = 128
   \<and> sign_up_email emailAndPassword rest store \<lparr> email = ''a@b.com'', name = ''A'', password = ''x'' \<rparr>
       = (Rejected, store)
   \<and> (length (password b) < 8 \<or> 128 < length (password b) \<longrightarrow>
        sign_up_email emailAndPassword rest store b = (Rejected, store))
   \<and> (8 \<le> length (password b) \<and> length (password b) \<le> 128 \<longrightarrow>
        sign_up_email emailAndPassword rest store b = (Handled (fst (rest store b)), snd (rest store b)))"
  by (auto simp add: sign_up_email_def emailAndPassword_def split: prod.splits)

text \<open>
  A password of seven characters and one of eight, with a rest of the engine that would
  store every body it is given.
\<close>

theorem password_policy_rejects_short_password_witness:
  "sign_up_email emailAndPassword (\<lambda>s b. (True, b # s)) []
       \<lparr> email = ''a@b.com'', name = ''A'', password = ''1234567'' \<rparr>
     = (Rejected, [])
   \<and> sign_up_email emailAndPassword (\<lambda>s b. (True, b # s)) []
       \<lparr> email = ''a@b.com'', name = ''A'', password = ''12345678'' \<rparr>
     = (Handled True, [\<lparr> email = ''a@b.com'', name = ''A'', password = ''12345678'' \<rparr>])"
  using password_policy_rejects_short_password
      [of "\<lambda>s b. (True, b # s)" "[]" "\<lparr> email = ''a@b.com'', name = ''A'', password = ''1234567'' \<rparr>"]
    password_policy_rejects_short_password
      [of "\<lambda>s b. (True, b # s)" "[]" "\<lparr> email = ''a@b.com'', name = ''A'', password = ''12345678'' \<rparr>"]
  by simp

subsection \<open>The environment loaders\<close>

lemma bindE_Inr_iff: "(bindE m f = Inr y) = (\<exists>x. m = Inr x \<and> f x = Inr y)"
  by (cases m) (simp_all add: bindE_def)

lemma bindE_Inl: "m = Inl e \<Longrightarrow> bindE m f = Inl e"
  by (simp add: bindE_def)






lemma env_getEnvVariable_default:
  "\<not> truthy (env key) \<Longrightarrow> d \<noteq> [] \<Longrightarrow> env_getEnvVariable env key d = Inr d"
  by (cases "env key") (simp_all add: env_getEnvVariable_def js_or_str_def)

lemma load_envConfig_Inr:
  assumes "load_envConfig env = Inr c"
  shows "envConfig_getEnvVariable env ''MONGO_URI'' None = Inr (envConfig_MONGO_URI c)"
    and "envConfig_getEnvVariable env ''BETTER_AUTH_SECRET'' None = Inr (envConfig_BETTER_AUTH_SECRET c)"
    and "getPort env = Inr (envConfig_PORT c)"
    and "envConfig_SMTP_FROM c = js_or (env ''SMTP_FROM'') (env ''SMTP_USER'')"
  using assms by (auto simp add: load_envConfig_def bindE_Inr_iff)

lemma load_env_Inr:
  assumes "load_env env = Inr c"
  shows "env_getEnvVariable env ''SMTP_USER'' [] = Inr (env_SMTP_USER c)"
    and "env_getEnvVariable env ''SMTP_PASS'' [] = Inr (env_SMTP_PASS c)"
    and "env_getEnvVariable env ''BETTER_AUTH_SECRET'' [] = Inr (env_BETTER_AUTH_SECRET c)"
    and "env_getEnvVariable env ''SMTP_FROM'' ''noreply@yourapp.com'' = Inr (env_SMTP_FROM c)"
    and "env_getEnvVariable env ''PORT'' ''5000'' = Inr (env_PORT c)"
  using assms by (auto simp add: load_env_def bindE_Inr_iff)








text \<open>
  C7. When \<open>SMTP_FROM\<close> is absent (or empty) and \<open>SMTP_USER\<close> is set, \<open>utils/envConfig.ts\<close>
  exports the value of \<open>SMTP_USER\<close> as \<open>SMTP_FROM\<close>, while \<open>config/env.ts\<close> exports the fixed
  \<open>noreply@yourapp.com\<close>; so the two differ whenever \<open>SMTP_USER\<close> is not that default.
\<close>

theorem SMTP_FROM_differs_between_modules:
  assumes "\<not> truthy (env ''SMTP_FROM'')" and "env ''SMTP_USER'' = Some u"
    and "u \<noteq> ''noreply@yourapp.com''"
    and "load_envConfig env = Inr c" and "load_env env = Inr c'"
  shows "envConfig_SMTP_FROM c = Some u
       \<and> env_SMTP_FROM c' = ''noreply@yourapp.com''
       \<and> envConfig_SMTP_FROM c \<noteq> Some (env_SMTP_FROM c')"
proof -
  have a: "envConfig_SMTP_FROM c = Some u"
    using load_envConfig_Inr(4) [OF assms(4)] assms(1,2) by (simp add: js_or_def)
  have "env_getEnvVariable env ''SMTP_FROM'' ''noreply@yourapp.com'' = Inr ''noreply@yourapp.com''"
    using assms(1) by (rule env_getEnvVariable_default) simp
  then have b: "env_SMTP_FROM c' = ''noreply@yourapp.com''"
    using load_env_Inr(4) [OF assms(5)] by simp
  show ?thesis using a b assms(3) by simp
qed


text \<open>
  An environment in which both modules load, with \<open>SMTP_FROM\<close> unset and \<open>SMTP_USER\<close> set to
  \<open>mailer@example.com\<close>.
\<close>

theorem SMTP_FROM_differs_between_modules_witness:
  "\<exists>c c'.
     load_envConfig (map_of
       [(''MONGO_URI'', ''mongodb://db:27017/app''), (''BETTER_AUTH_SECRET'', ''0123456789abcdef0123456789abcdef''),
        (''SMTP_USER'', ''mailer@example.com''), (''SMTP_PASS'', ''secret''),
        (''GITHUB_CLIENT_ID'', ''gh-id''), (''GITHUB_CLIENT_SECRET'', ''gh-secret''),
        (''GOOGLE_CLIENT_ID'', ''g-id''), (''GOOGLE_CLIENT_SECRET'', ''g-secret'')]) = Inr c
   \<and> load_env (map_of
       [(''MONGO_URI'', ''mongodb://db:27017/app''), (''BETTER_AUTH_SECRET'', ''0123456789abcdef0123456789abcdef''),
        (''SMTP_USER'', ''mailer@example.com''), (''SMTP_PASS'', ''secret''),
        (''GITHUB_CLIENT_ID'', ''gh-id''), (''GITHUB_CLIENT_SECRET'', ''gh-secret''),
        (''GOOGLE_CLIENT_ID'', ''g-id''), (''GOOGLE_CLIENT_SECRET'', ''g-secret'')]) = Inr c'
   \<and> envConfig_SMTP_FROM c = Some ''mailer@example.com''
   \<and> env_SMTP_FROM c' = ''noreply@yourapp.com''
   \<and> envConfig_SMTP_FROM c \<noteq> Some (env_SMTP_FROM c')"
proof -
  let ?env = "map_of
       [(''MONGO_URI'', ''mongodb://db:27017/app''), (''BETTER_AUTH_SECRET'', ''0123456789abcdef0123456789abcdef''),
        (''SMTP_USER'', ''mailer@example.com''), (''SMTP_PASS'', ''secret''),
        (''GITHUB_CLIENT_ID'', ''gh-id''), (''GITHUB_CLIENT_SECRET'', ''gh-secret''),
        (''GOOGLE_CLIENT_ID'', ''g-id''), (''GOOGLE_CLIENT_SECRET'', ''g-secret'')]"
  have "\<exists>c. load_envConfig ?env = Inr c"
    by (simp add: load_envConfig_def bindE_def getPort_def js_or_str_def js_or_def parseInt_5000
        envConfig_getEnvVariable_def)
  then obtain c where c: "load_envConfig ?env = Inr c" ..
  have "\<exists>c'. load_env ?env = Inr c'"
    by (simp add: load_env_def bindE_def js_or_str_def env_getEnvVariable_def)
  then obtain c' where c': "load_env ?env = Inr c'" ..
  have f: "\<not> truthy (?env ''SMTP_FROM'')" by simp
  have u: "?env ''SMTP_USER'' = Some ''mailer@example.com''" by simp
  have n: "''mailer@example.com'' \<noteq> ''noreply@yourapp.com''" by simp
  from SMTP_FROM_differs_between_modules [OF f u n c c'] c c'
  show ?thesis by blast
qed




end
